theory Spec2Isabelle
  imports Complex_Main
begin

section \<open>The Monte Carlo simulation of app.py\<close>

text \<open>
  The simulation core of \<^verbatim>\<open>src/app.py\<close> is the pair of functions
  \<^verbatim>\<open>sample_normal_dist\<close> (lines 112-117) and \<^verbatim>\<open>monte_carlo_simulation\<close>
  (lines 119-156). Both are embedded below, with the two things they touch besides their
  arguments made explicit:
  \<^item> the database session: \<^verbatim>\<open>session.query(MethodTechnologyService).filter_by(method_id=...).first()\<close>
    is a function from a method id to an optional service row;
  \<^item> numpy's global random generator: a state that is passed in and returned.

  Numbers. Python floats and \<^verbatim>\<open>numpy.float64\<close> values are modelled by real numbers, so
  rounding and overflow are not part of the model. The one place where the kind of a
  number decides the control flow is kept: a true division by zero raises
  \<^verbatim>\<open>ZeroDivisionError\<close> when the numerator is a Python number and follows IEEE 754 (an
  infinity or a nan, with a warning only) when the numerator is a \<^verbatim>\<open>numpy.float64\<close>.
\<close>

subsection \<open>Data\<close>

text \<open>The exceptions the two functions can raise.\<close>

datatype error = ValueError | KeyError | UnboundLocalError | ZeroDivisionError

text \<open>
  A row of the table \<^verbatim>\<open>method_technology_services\<close> (database_setup.py, lines 50-62),
  with the eight columns the simulation reads.
\<close>

record service =
  maturity_min :: real
  maturity_max :: real
  cost_min :: real
  cost_max :: real
  interoperability_min :: real
  interoperability_max :: real
  integration_min :: real
  integration_max :: real

text \<open>A row of the table \<^verbatim>\<open>methods\<close>; the simulation reads its \<^verbatim>\<open>method_id\<close> only.\<close>

record Method =
  method_id :: int
  name :: string

text \<open>
  The dictionary stored per method at lines 104-109 has exactly the four keys below, in
  this order; \<^verbatim>\<open>method_weights\<close> maps a method id to such a dictionary.
\<close>

record weight_vector =
  cost_w :: real
  maturity_w :: real
  integration_w :: real
  interoperability_w :: real

text \<open>
  The random generator: the sequence of standard normal deviates it yields from its
  seeding on, and the number of them consumed so far.
\<close>

record rng =
  deviates :: "nat \<Rightarrow> real"
  consumed :: nat

text \<open>
  The value of \<^verbatim>\<open>total_irl\<close>: the Python integer it starts as, or the
  \<^verbatim>\<open>numpy.float64\<close> it becomes with the first \<^verbatim>\<open>+=\<close> of a clipped sample.
\<close>

datatype pynum = PyInt int | NpFloat64 real

text \<open>An entry of the returned array: a finite number, an infinity or a nan.\<close>

datatype npfloat = Fin real | PInf | NInf | NaN

subsection \<open>numpy and Python primitives\<close>

definition advance :: "nat \<Rightarrow> rng \<Rightarrow> rng" where
  "advance k g = g\<lparr>consumed := consumed g + k\<rparr>"

text \<open>
  \<^verbatim>\<open>np.random.normal(loc, scale)\<close>: raises \<^verbatim>\<open>ValueError\<close> on a negative scale,
  and otherwise returns \<^verbatim>\<open>loc + scale * z\<close> for the next standard normal deviate.
\<close>

definition random_normal :: "real \<Rightarrow> real \<Rightarrow> rng \<Rightarrow> error + real \<times> rng" where
  "random_normal loc scale g =
     (if scale < 0 then Inl ValueError
      else Inr (loc + scale * deviates g (consumed g), advance 1 g))"

text \<open>\<^verbatim>\<open>np.clip(a, a_min, a_max)\<close>.\<close>

definition np_clip :: "real \<Rightarrow> real \<Rightarrow> real \<Rightarrow> real" where
  "np_clip a a_min a_max = min (max a a_min) a_max"

text \<open>\<^verbatim>\<open>total_irl += weighted_score\<close>, the right operand a \<^verbatim>\<open>numpy.float64\<close>.\<close>

fun add_np :: "pynum \<Rightarrow> real \<Rightarrow> pynum" where
  "add_np (PyInt i) x = NpFloat64 (real_of_int i + x)"
| "add_np (NpFloat64 a) x = NpFloat64 (a + x)"

text \<open>
  \<^verbatim>\<open>total_irl / normalization_factor\<close>, the divisor a Python float. A zero divisor
  here is the positive zero: it is a sum that starts at the integer 0, times a positive
  count.
\<close>

definition np_divide :: "real \<Rightarrow> real \<Rightarrow> npfloat" where
  "np_divide x d =
     (if d \<noteq> 0 then Fin (x / d)
      else if 0 < x then PInf else if x < 0 then NInf else NaN)"

fun truediv :: "pynum \<Rightarrow> real \<Rightarrow> error + npfloat" where
  "truediv (PyInt i) d =
     (if d = 0 then Inl ZeroDivisionError else Inr (Fin (real_of_int i / d)))"
| "truediv (NpFloat64 x) d = Inr (np_divide x d)"

text \<open>\<^verbatim>\<open>sum(weights.values())\<close>.\<close>

definition sum_values :: "weight_vector \<Rightarrow> real" where
  "sum_values weights =
     0 + cost_w weights + maturity_w weights + integration_w weights
       + interoperability_w weights"

subsection \<open>sample_normal_dist\<close>

definition sample_normal_dist :: "real \<Rightarrow> real \<Rightarrow> real \<Rightarrow> rng \<Rightarrow> error + real \<times> rng" where
  "sample_normal_dist min_val max_val std_dev g =
     (let mean_val = (min_val + max_val) / 2 in
      case random_normal mean_val std_dev g of
        Inl e \<Rightarrow> Inl e
      | Inr (x, g') \<Rightarrow> Inr (np_clip x 0 9, g'))"

subsection \<open>monte_carlo_simulation\<close>

text \<open>
  The variables the inner loop updates: \<^verbatim>\<open>total_irl\<close>, \<^verbatim>\<open>weights\<close> (\<open>None\<close> while it
  is unbound) and the generator.
\<close>

type_synonym trial_state = "pynum \<times> weight_vector option \<times> rng"

text \<open>The body of \<^verbatim>\<open>for method in selected_methods\<close> (lines 127-147).\<close>

definition method_body ::
  "(int \<Rightarrow> service option) \<Rightarrow> (int \<Rightarrow> weight_vector option) \<Rightarrow> Method \<Rightarrow> trial_state
     \<Rightarrow> error + trial_state" where
  "method_body session method_weights m st =
     (case st of (total_irl, weights_var, g) \<Rightarrow>
      (case session (method_id m) of
        None \<Rightarrow> Inr (total_irl, weights_var, g)
      | Some service \<Rightarrow>
         (case sample_normal_dist (cost_min service) (cost_max service) 0.5 g of
            Inl e \<Rightarrow> Inl e
          | Inr (cost_score, g1) \<Rightarrow>
         (case sample_normal_dist (maturity_min service) (maturity_max service) 0.5 g1 of
            Inl e \<Rightarrow> Inl e
          | Inr (maturity_score, g2) \<Rightarrow>
         (case sample_normal_dist (integration_min service) (integration_max service) 0.5 g2 of
            Inl e \<Rightarrow> Inl e
          | Inr (integration_score, g3) \<Rightarrow>
         (case sample_normal_dist (interoperability_min service)
                 (interoperability_max service) 0.5 g3 of
            Inl e \<Rightarrow> Inl e
          | Inr (interoperability_score, g4) \<Rightarrow>
         (case method_weights (method_id m) of
            None \<Rightarrow> Inl KeyError
          | Some weights \<Rightarrow>
              Inr (add_np total_irl
                     (cost_w weights * cost_score
                      + maturity_w weights * maturity_score
                      + integration_w weights * integration_score
                      + interoperability_w weights * interoperability_score),
                   Some weights, g4))))))))"

text \<open>The inner loop.\<close>

fun method_loop ::
  "(int \<Rightarrow> service option) \<Rightarrow> (int \<Rightarrow> weight_vector option) \<Rightarrow> Method list \<Rightarrow> trial_state
     \<Rightarrow> error + trial_state" where
  "method_loop session method_weights [] st = Inr st"
| "method_loop session method_weights (m # ms) st =
     (case method_body session method_weights m st of
        Inl e \<Rightarrow> Inl e
      | Inr st' \<Rightarrow> method_loop session method_weights ms st')"

text \<open>
  One pass of \<^verbatim>\<open>for _ in range(n_simulations)\<close> (lines 125-154): the score appended
  to \<^verbatim>\<open>irl_scores\<close>, with the variables that outlive the pass.
\<close>

definition trial ::
  "(int \<Rightarrow> service option) \<Rightarrow> Method list \<Rightarrow> (int \<Rightarrow> weight_vector option)
     \<Rightarrow> weight_vector option \<times> rng \<Rightarrow> error + npfloat \<times> weight_vector option \<times> rng" where
  "trial session selected_methods method_weights st =
     (case st of (weights_var, g) \<Rightarrow>
      (case method_loop session method_weights selected_methods (PyInt 0, weights_var, g) of
        Inl e \<Rightarrow> Inl e
      | Inr (total_irl, weights_var', g') \<Rightarrow>
          if selected_methods \<noteq> [] then
            (case weights_var' of
               None \<Rightarrow> Inl UnboundLocalError
             | Some weights \<Rightarrow>
                 (case truediv total_irl
                         (sum_values weights * real (length selected_methods)) of
                    Inl e \<Rightarrow> Inl e
                  | Inr q \<Rightarrow> Inr (q, weights_var', g')))
          else Inr (Fin 0, weights_var', g')))"

text \<open>The outer loop, over the passes that remain.\<close>

fun simulation_loop ::
  "(int \<Rightarrow> service option) \<Rightarrow> Method list \<Rightarrow> (int \<Rightarrow> weight_vector option) \<Rightarrow> nat
     \<Rightarrow> npfloat list \<times> weight_vector option \<times> rng
     \<Rightarrow> error + npfloat list \<times> weight_vector option \<times> rng" where
  "simulation_loop session selected_methods method_weights 0 st = Inr st"
| "simulation_loop session selected_methods method_weights (Suc k) st =
     (case st of (irl_scores, weights_var, g) \<Rightarrow>
      (case trial session selected_methods method_weights (weights_var, g) of
        Inl e \<Rightarrow> Inl e
      | Inr (score, weights_var', g') \<Rightarrow>
          simulation_loop session selected_methods method_weights k
            (irl_scores @ [score], weights_var', g')))"

text \<open>
  The function: \<^verbatim>\<open>range(n_simulations)\<close> is empty for a count that is not positive.
  The result is the array with the generator as the call leaves it.
\<close>

definition monte_carlo_simulation ::
  "(int \<Rightarrow> service option) \<Rightarrow> Method list \<Rightarrow> (int \<Rightarrow> weight_vector option) \<Rightarrow> int \<Rightarrow> rng
     \<Rightarrow> error + npfloat list \<times> rng" where
  "monte_carlo_simulation session selected_methods method_weights n_simulations g =
     (case simulation_loop session selected_methods method_weights (nat n_simulations)
             ([], None, g) of
        Inl e \<Rightarrow> Inl e
      | Inr (irl_scores, weights_var, g') \<Rightarrow> Inr (irl_scores, g'))"

section \<open>The specification's view of a run\<close>

text \<open>
  The specification describes a run over a bundle: the selected methods that have bounds,
  each with its bounds and its weights, in the order of selection.
\<close>

definition has_weights ::
  "(int \<Rightarrow> service option) \<Rightarrow> (int \<Rightarrow> weight_vector option) \<Rightarrow> Method list \<Rightarrow> bool" where
  "has_weights session method_weights ms =
     list_all (\<lambda>m. session (method_id m) = None \<or> method_weights (method_id m) \<noteq> None) ms"

fun bundle_of ::
  "(int \<Rightarrow> service option) \<Rightarrow> (int \<Rightarrow> weight_vector option) \<Rightarrow> Method list
     \<Rightarrow> (service \<times> weight_vector) list" where
  "bundle_of session method_weights [] = []"
| "bundle_of session method_weights (m # ms) =
     (case session (method_id m) of
        None \<Rightarrow> bundle_of session method_weights ms
      | Some s \<Rightarrow>
         (case method_weights (method_id m) of
            None \<Rightarrow> bundle_of session method_weights ms
          | Some w \<Rightarrow> (s, w) # bundle_of session method_weights ms))"

text \<open>
  The sample of a parameter with bounds \<open>lo\<close> and \<open>hi\<close> that uses the \<open>j\<close>-th deviate
  from the generator's position on: centred at the midpoint, standard deviation 0.5,
  clipped into the score domain.
\<close>

definition clipped_draw :: "rng \<Rightarrow> nat \<Rightarrow> real \<Rightarrow> real \<Rightarrow> real" where
  "clipped_draw g j lo hi = np_clip ((lo + hi) / 2 + 0.5 * deviates g (consumed g + j)) 0 9"

text \<open>The weighted total of one method: the sum of weight times sub-score.\<close>

definition weighted_total :: "service \<Rightarrow> weight_vector \<Rightarrow> rng \<Rightarrow> real" where
  "weighted_total s w g =
     cost_w w * clipped_draw g 0 (cost_min s) (cost_max s)
     + maturity_w w * clipped_draw g 1 (maturity_min s) (maturity_max s)
     + integration_w w * clipped_draw g 2 (integration_min s) (integration_max s)
     + interoperability_w w * clipped_draw g 3 (interoperability_min s) (interoperability_max s)"

text \<open>The weighted totals of a trial, four deviates to a method.\<close>

fun per_method_totals :: "(service \<times> weight_vector) list \<Rightarrow> rng \<Rightarrow> real list" where
  "per_method_totals [] g = []"
| "per_method_totals (sw # b) g =
     weighted_total (fst sw) (snd sw) g # per_method_totals b (advance 4 g)"

text \<open>
  The score of the trial that starts at generator \<open>g\<close>, as the specification's
  BundleAggregator words it: the sum of the weighted totals, divided by the sum of the
  last method's weights times the number of selected methods.
\<close>

definition spec_trial_score ::
  "(service \<times> weight_vector) list \<Rightarrow> nat \<Rightarrow> rng \<Rightarrow> npfloat" where
  "spec_trial_score b method_count g =
     np_divide (sum_list (per_method_totals b g))
       (sum_values (snd (last b)) * real method_count)"

text \<open>Two generators agree on their next \<open>k\<close> deviates.\<close>

definition same_draws :: "nat \<Rightarrow> rng \<Rightarrow> rng \<Rightarrow> bool" where
  "same_draws k g1 g2 =
     (\<forall>j<k. deviates g1 (consumed g1 + j) = deviates g2 (consumed g2 + j))"

text \<open>What a call returns, without the generator it leaves behind.\<close>

definition outcome :: "error + npfloat list \<times> rng \<Rightarrow> error + npfloat list" where
  "outcome r = (case r of Inl e \<Rightarrow> Inl e | Inr (irl_scores, g) \<Rightarrow> Inr irl_scores)"

section \<open>Concrete inputs\<close>

text \<open>
  The bounds of the specification's end-to-end scenario: cost in [2, 4], maturity in
  [3, 5], integration in [1, 3], interoperability in [4, 6].
\<close>

definition ex_service :: service where
  "ex_service =
     \<lparr>maturity_min = 3, maturity_max = 5, cost_min = 2, cost_max = 4,
      interoperability_min = 4, interoperability_max = 6,
      integration_min = 1, integration_max = 3\<rparr>"

definition ex_method :: "int \<Rightarrow> Method" where
  "ex_method i = \<lparr>method_id = i, name = ''method''\<rparr>"

text \<open>A database in which methods 1 and 2 have a service row and no other method has.\<close>

definition ex_session :: "int \<Rightarrow> service option" where
  "ex_session i = (if i = 1 \<or> i = 2 then Some ex_service else None)"

text \<open>Weights 1.0 for every method but method 2, whose weights are 2.0.\<close>

definition ex_weights :: "int \<Rightarrow> weight_vector option" where
  "ex_weights i =
     (if i = 2
      then Some \<lparr>cost_w = 2, maturity_w = 2, integration_w = 2, interoperability_w = 2\<rparr>
      else Some \<lparr>cost_w = 1, maturity_w = 1, integration_w = 1, interoperability_w = 1\<rparr>)"

text \<open>Weights 0.0 for method 1 and 2.0 for every other method.\<close>

definition ex_zero_weights :: "int \<Rightarrow> weight_vector option" where
  "ex_zero_weights i =
     (if i = 1
      then Some \<lparr>cost_w = 0, maturity_w = 0, integration_w = 0, interoperability_w = 0\<rparr>
      else Some \<lparr>cost_w = 2, maturity_w = 2, integration_w = 2, interoperability_w = 2\<rparr>)"

text \<open>A generator whose deviates are all 0: every sample is the midpoint of its bounds.\<close>

definition ex_rng :: rng where
  "ex_rng = \<lparr>deviates = (\<lambda>j. 0), consumed = 0\<rparr>"

text \<open>
  Two generators for a bundle of two methods in its two orders. With the first
  generator the first method of the bundle draws the deviate 1 for each parameter and
  the second method the deviate -1; with the second generator it is the other way round.
\<close>

definition ex_rng_hi_lo :: rng where
  "ex_rng_hi_lo = \<lparr>deviates = (\<lambda>j. if j < 4 then 1 else - 1), consumed = 0\<rparr>"

definition ex_rng_lo_hi :: rng where
  "ex_rng_lo_hi = \<lparr>deviates = (\<lambda>j. if j < 4 then - 1 else 1), consumed = 0\<rparr>"

section \<open>The loops in closed form\<close>

subsection \<open>Samples and the generator\<close>

text \<open>
  The default standard deviation is not negative, so the four samples of a method never
  raise; each advances the generator by one deviate.
\<close>

lemma sample_returns:
  "0 \<le> sd \<Longrightarrow> sample_normal_dist lo hi sd g =
     Inr (np_clip ((lo + hi) / 2 + sd * deviates g (consumed g)) 0 9, advance 1 g)"
  by (simp add: sample_normal_dist_def random_normal_def)

lemma advance_advance: "advance j (advance k g) = advance (k + j) g"
  by (simp add: advance_def)

lemma advance_sel [simp]:
  "consumed (advance k g) = consumed g + k" "deviates (advance k g) = deviates g"
  by (simp_all add: advance_def)

lemma np_divide_zero:
  "np_divide t 0 = (if 0 < t then PInf else if t < 0 then NInf else NaN)"
  by (simp add: np_divide_def)

subsection \<open>The inner loop\<close>

text \<open>
  A method without a service row leaves the state as it is; one with a service row and no
  entry in \<^verbatim>\<open>method_weights\<close> raises \<^verbatim>\<open>KeyError\<close>; any other adds its weighted
  total, binds \<^verbatim>\<open>weights\<close> and draws four deviates.
\<close>

lemma method_body_skip:
  "session (method_id m) = None \<Longrightarrow> method_body session mw m st = Inr st"
  by (cases st) (simp add: method_body_def)

lemma method_body_KeyError:
  "session (method_id m) = Some s \<Longrightarrow> mw (method_id m) = None \<Longrightarrow>
   method_body session mw m st = Inl KeyError"
  by (cases st) (simp add: method_body_def sample_returns)

lemma method_body_Some:
  "session (method_id m) = Some s \<Longrightarrow> mw (method_id m) = Some w \<Longrightarrow>
   method_body session mw m (tot, wv, g) =
     Inr (add_np tot (weighted_total s w g), Some w, advance 4 g)"
  by (simp add: method_body_def sample_returns advance_advance weighted_total_def clipped_draw_def numeral_3_eq_3)

lemma method_loop_KeyError:
  "\<not> has_weights session mw ms \<Longrightarrow> method_loop session mw ms st = Inl KeyError"
proof (induction ms arbitrary: st)
  case Nil
  then show ?case by (simp add: has_weights_def)
next
  case (Cons m ms)
  obtain tot wv g where st: "st = (tot, wv, g)" by (cases st) auto
  show ?case
  proof (cases "session (method_id m)")
    case None
    with Cons show ?thesis by (simp add: has_weights_def method_body_skip)
  next
    case (Some s)
    show ?thesis
    proof (cases "mw (method_id m)")
      case None
      with Some show ?thesis by (simp add: method_body_KeyError)
    next
      case (Some w)
      with \<open>session (method_id m) = Some s\<close> Cons show ?thesis
        by (simp add: has_weights_def st method_body_Some)
    qed
  qed
qed

lemma method_loop_closed:
  "has_weights session mw ms \<Longrightarrow>
   method_loop session mw ms (tot, wv, g) =
     Inr (foldl add_np tot (per_method_totals (bundle_of session mw ms) g),
          (if bundle_of session mw ms = [] then wv
           else Some (snd (last (bundle_of session mw ms)))),
          advance (4 * length (bundle_of session mw ms)) g)"
proof (induction ms arbitrary: tot wv g)
  case Nil
  then show ?case by (simp add: advance_def)
next
  case (Cons m ms)
  then have hw: "has_weights session mw ms" by (simp add: has_weights_def)
  show ?case
  proof (cases "session (method_id m)")
    case None
    with Cons.IH [OF hw] show ?thesis by (simp add: method_body_skip)
  next
    case (Some s)
    with Cons.prems obtain w where w: "mw (method_id m) = Some w"
      by (auto simp: has_weights_def)
    with Some Cons.IH [OF hw] show ?thesis
      by (simp add: method_body_Some advance_advance)
  qed
qed

lemma method_loop_skips:
  "method_loop session mw ms st =
   method_loop session mw (filter (\<lambda>m. session (method_id m) \<noteq> None) ms) st"
proof (induction ms arbitrary: st)
  case Nil
  then show ?case by simp
next
  case (Cons m ms)
  show ?case
  proof (cases "session (method_id m)")
    case None
    with Cons show ?thesis by (simp add: method_body_skip)
  next
    case (Some s)
    with Cons show ?thesis by (simp split: sum.splits)
  qed
qed

lemma foldl_add_np_float:
  "foldl add_np (NpFloat64 a) xs = NpFloat64 (a + sum_list xs)"
  by (induction xs arbitrary: a) (simp_all add: add.assoc)

lemma foldl_add_np_zero:
  "xs \<noteq> [] \<Longrightarrow> foldl add_np (PyInt 0) xs = NpFloat64 (sum_list xs)"
  by (cases xs) (simp_all add: foldl_add_np_float)

lemma per_method_totals_Nil [simp]: "per_method_totals b g = [] \<longleftrightarrow> b = []"
  by (cases b) simp_all

lemma bundle_of_Nil_length: "bundle_of session mw ms \<noteq> [] \<Longrightarrow> ms \<noteq> []"
  by (cases ms) simp_all

lemma bundle_of_no_service:
  "\<forall>m\<in>set ms. session (method_id m) = None \<Longrightarrow> bundle_of session mw ms = []"
  by (induction ms) simp_all

lemma has_weights_no_service:
  "\<forall>m\<in>set ms. session (method_id m) = None \<Longrightarrow> has_weights session mw ms"
  by (simp add: has_weights_def list_all_iff)

lemma bundle_of_filter:
  "bundle_of session mw (filter (\<lambda>m. session (method_id m) \<noteq> None) ms) =
   bundle_of session mw ms"
  by (induction ms) (auto split: option.splits)

lemma length_filter_skipped:
  "\<exists>m\<in>set ms. session (method_id m) = None \<Longrightarrow>
   length (filter (\<lambda>m. session (method_id m) \<noteq> None) ms) < length ms"
  by (auto intro: length_filter_less)

subsection \<open>A trial\<close>

lemma trial_empty: "trial session [] mw (wv, g) = Inr (Fin 0, wv, g)"
  by (simp add: trial_def)

lemma trial_KeyError:
  "\<not> has_weights session mw ms \<Longrightarrow> trial session ms mw st = Inl KeyError"
  by (cases st) (simp add: trial_def method_loop_KeyError)

lemma trial_unbound:
  "has_weights session mw ms \<Longrightarrow> ms \<noteq> [] \<Longrightarrow> bundle_of session mw ms = [] \<Longrightarrow>
   trial session ms mw (None, g) = Inl UnboundLocalError"
  by (simp add: trial_def method_loop_closed)

lemma trial_closed:
  "has_weights session mw ms \<Longrightarrow> bundle_of session mw ms \<noteq> [] \<Longrightarrow>
   trial session ms mw (wv, g) =
     Inr (spec_trial_score (bundle_of session mw ms) (length ms) g,
          Some (snd (last (bundle_of session mw ms))),
          advance (4 * length (bundle_of session mw ms)) g)"
  using bundle_of_Nil_length [of session mw ms]
  by (simp add: trial_def method_loop_closed foldl_add_np_zero spec_trial_score_def)

subsection \<open>The outer loop and the function\<close>

text \<open>
  A trial that processes a method leaves \<^verbatim>\<open>weights\<close> bound and the generator four
  deviates further for each method of the bundle, so trial \<open>i\<close> starts that many
  deviates, times \<open>i\<close>, after the first.
\<close>

lemma simulation_loop_empty:
  "simulation_loop session [] mw k (acc, wv, g) = Inr (acc @ replicate k (Fin 0), wv, g)"
  by (induction k arbitrary: acc) (simp_all add: trial_empty replicate_app_Cons_same)

lemma simulation_loop_KeyError:
  "\<not> has_weights session mw ms \<Longrightarrow>
   simulation_loop session ms mw (Suc k) st = Inl KeyError"
  by (cases st) (simp add: trial_KeyError)

lemma simulation_loop_unbound:
  "has_weights session mw ms \<Longrightarrow> ms \<noteq> [] \<Longrightarrow> bundle_of session mw ms = [] \<Longrightarrow>
   simulation_loop session ms mw (Suc k) (acc, None, g) = Inl UnboundLocalError"
  by (simp add: trial_unbound)

lemma simulation_loop_closed:
  "has_weights session mw ms \<Longrightarrow> bundle_of session mw ms \<noteq> [] \<Longrightarrow>
   simulation_loop session ms mw k (acc, wv, g) =
     Inr (acc @ map (\<lambda>i. spec_trial_score (bundle_of session mw ms) (length ms)
                       (advance (i * (4 * length (bundle_of session mw ms))) g)) [0..<k],
          (if k = 0 then wv else Some (snd (last (bundle_of session mw ms)))),
          advance (k * (4 * length (bundle_of session mw ms))) g)"
proof (induction k arbitrary: acc wv g)
  case 0
  then show ?case by (simp add: advance_def)
next
  case (Suc k)
  let ?d = "4 * length (bundle_of session mw ms)"
  let ?f = "\<lambda>g i. spec_trial_score (bundle_of session mw ms) (length ms) (advance (i * ?d) g)"
  have shift: "map (?f (advance ?d g)) [0..<k] = map (?f g) (map Suc [0..<k])"
    by (simp add: advance_advance add.commute)
  have upt: "[0..<Suc k] = 0 # map Suc [0..<k]"
    by (simp add: upt_conv_Cons map_Suc_upt del: upt_Suc)
  have z: "advance 0 g = g" by (simp add: advance_def)
  show ?case
    unfolding upt
    using Suc.prems
    by (simp add: trial_closed Suc.IH [OF Suc.prems] shift advance_advance z add.commute
        del: upt_Suc)
qed

lemma simulation_loop_length:
  "simulation_loop session ms mw k (acc, wv, g) = Inr (scores, wv', g') \<Longrightarrow>
   length scores = length acc + k"
proof (induction k arbitrary: acc wv g)
  case 0
  then show ?case by simp
next
  case (Suc k)
  from Suc.prems obtain score wv1 g1 where
    "trial session ms mw (wv, g) = Inr (score, wv1, g1)"
    and rest: "simulation_loop session ms mw k (acc @ [score], wv1, g1) = Inr (scores, wv', g')"
    by (auto split: sum.splits)
  from Suc.IH [OF rest] show ?case by simp
qed

lemma monte_carlo_simulation_closed:
  assumes "has_weights session mw ms" "bundle_of session mw ms \<noteq> []"
  shows "monte_carlo_simulation session ms mw n g =
     Inr (map (\<lambda>i. spec_trial_score (bundle_of session mw ms) (length ms)
                  (advance (i * (4 * length (bundle_of session mw ms))) g)) [0..<nat n],
          advance (nat n * (4 * length (bundle_of session mw ms))) g)"
  using assms by (simp add: monte_carlo_simulation_def simulation_loop_closed)

lemma monte_carlo_simulation_KeyError:
  "\<not> has_weights session mw ms \<Longrightarrow> 0 < n \<Longrightarrow>
   monte_carlo_simulation session ms mw n g = Inl KeyError"
proof -
  assume a: "\<not> has_weights session mw ms" and "0 < n"
  then obtain k where k: "nat n = Suc k" by (cases "nat n") auto
  from simulation_loop_KeyError [OF a, of k "([], None, g)"] show ?thesis
    by (simp add: monte_carlo_simulation_def k del: simulation_loop.simps)
qed

lemma monte_carlo_simulation_unbound:
  "has_weights session mw ms \<Longrightarrow> ms \<noteq> [] \<Longrightarrow> bundle_of session mw ms = [] \<Longrightarrow> 0 < n \<Longrightarrow>
   monte_carlo_simulation session ms mw n g = Inl UnboundLocalError"
proof -
  assume a: "has_weights session mw ms" "ms \<noteq> []" "bundle_of session mw ms = []" and "0 < n"
  then obtain k where k: "nat n = Suc k" by (cases "nat n") auto
  from simulation_loop_unbound [OF a, of k "[]" g] show ?thesis
    by (simp add: monte_carlo_simulation_def k del: simulation_loop.simps)
qed

lemma monte_carlo_simulation_no_trial:
  "n \<le> 0 \<Longrightarrow> monte_carlo_simulation session ms mw n g = Inr ([], g)"
  by (simp add: monte_carlo_simulation_def)

lemma monte_carlo_simulation_length:
  assumes "monte_carlo_simulation session ms mw n g = Inr (irl_scores, g')"
  shows "length irl_scores = nat n"
proof -
  from assms obtain wv where
    "simulation_loop session ms mw (nat n) ([], None, g) = Inr (irl_scores, wv, g')"
    by (auto simp: monte_carlo_simulation_def split: sum.splits)
  from simulation_loop_length [OF this] show ?thesis by simp
qed

subsection \<open>Generators that agree\<close>

lemma same_draws_advance:
  "same_draws (j + k) g1 g2 \<Longrightarrow> same_draws k (advance j g1) (advance j g2)"
  by (simp add: same_draws_def add.assoc)

lemma same_draws_mono: "same_draws k' g1 g2 \<Longrightarrow> k \<le> k' \<Longrightarrow> same_draws k g1 g2"
  by (simp add: same_draws_def)

lemma weighted_total_same:
  assumes "same_draws 4 g1 g2"
  shows "weighted_total s w g1 = weighted_total s w g2"
proof -
  from assms have "deviates g1 (consumed g1 + j) = deviates g2 (consumed g2 + j)"
    if "j < 4" for j
    using that by (simp add: same_draws_def)
  then have "clipped_draw g1 j lo hi = clipped_draw g2 j lo hi" if "j < 4" for j lo hi
    using that by (simp add: clipped_draw_def)
  then show ?thesis by (simp add: weighted_total_def)
qed

lemma per_method_totals_same:
  "same_draws (4 * length b) g1 g2 \<Longrightarrow> per_method_totals b g1 = per_method_totals b g2"
proof (induction b arbitrary: g1 g2)
  case Nil
  then show ?case by simp
next
  case (Cons sw b)
  from Cons.prems have "same_draws (4 + 4 * length b) g1 g2" by simp
  then have rest: "same_draws (4 * length b) (advance 4 g1) (advance 4 g2)"
    by (rule same_draws_advance)
  from Cons.prems have first: "same_draws 4 g1 g2"
    by (rule same_draws_mono) simp
  from Cons.IH [OF rest] weighted_total_same [OF first] show ?case by simp
qed

lemma spec_trial_score_same:
  assumes "same_draws (n * (4 * length b)) g1 g2" and "i < n"
  shows "spec_trial_score b c (advance (i * (4 * length b)) g1) =
         spec_trial_score b c (advance (i * (4 * length b)) g2)"
proof -
  let ?d = "4 * length b"
  from assms(2) have "Suc i \<le> n" by simp
  then have "Suc i * ?d \<le> n * ?d" by (rule mult_le_mono1)
  then have "i * ?d + ?d \<le> n * ?d" by simp
  with assms(1) have "same_draws (i * ?d + ?d) g1 g2" by (rule same_draws_mono)
  then have "same_draws ?d (advance (i * ?d) g1) (advance (i * ?d) g2)"
    by (rule same_draws_advance)
  from per_method_totals_same [OF this] show ?thesis by (simp add: spec_trial_score_def)
qed

subsection \<open>The bundles of the concrete inputs\<close>

lemma ex_bundle_12:
  "bundle_of ex_session ex_weights [ex_method 1, ex_method 2] =
     [(ex_service, \<lparr>cost_w = 1, maturity_w = 1, integration_w = 1, interoperability_w = 1\<rparr>),
      (ex_service, \<lparr>cost_w = 2, maturity_w = 2, integration_w = 2, interoperability_w = 2\<rparr>)]"
  by (simp add: ex_session_def ex_weights_def ex_method_def)

lemma ex_bundle_21_zero:
  "bundle_of ex_session ex_zero_weights [ex_method 2, ex_method 1] =
     [(ex_service, \<lparr>cost_w = 2, maturity_w = 2, integration_w = 2, interoperability_w = 2\<rparr>),
      (ex_service, \<lparr>cost_w = 0, maturity_w = 0, integration_w = 0, interoperability_w = 0\<rparr>)]"
  by (simp add: ex_session_def ex_zero_weights_def ex_method_def)

lemma ex_bundle_13:
  "bundle_of ex_session ex_weights [ex_method 1, ex_method 3] =
     [(ex_service, \<lparr>cost_w = 1, maturity_w = 1, integration_w = 1, interoperability_w = 1\<rparr>)]"
  by (simp add: ex_session_def ex_weights_def ex_method_def)

section \<open>Properties of sample_normal_dist\<close>

text \<open>
  Claim C5. Whatever the bounds, the standard deviation and the deviate drawn, a value
  that \<^verbatim>\<open>sample_normal_dist\<close> returns lies in the global score domain [0, 9]: it is the
  draw \<open>(min_val + max_val) / 2 + std_dev * z\<close>, centred at the midpoint of the bounds,
  clipped to 0 and 9 and not to \<open>min_val\<close> and \<open>max_val\<close>. (The call returns for every
  standard deviation that is not negative, by \<open>sample_returns\<close>; numpy rejects a
  negative one.)
\<close>

theorem sample_clipped_to_global_domain:
  assumes "sample_normal_dist min_val max_val std_dev g = Inr (score, g')"
  shows "0 \<le> score \<and> score \<le> 9
         \<and> score = np_clip ((min_val + max_val) / 2 + std_dev * deviates g (consumed g)) 0 9"
  using assms
  by (auto simp: sample_normal_dist_def random_normal_def np_clip_def split: if_splits)

text \<open>
  At bounds [2, 4] and the deviate 10 the sample is 8: outside the declared bounds,
  inside the global domain.
\<close>

theorem sample_clipped_to_global_domain_witness:
  "sample_normal_dist 2 4 (1 / 2) \<lparr>deviates = (\<lambda>j. 10), consumed = 0\<rparr> =
     Inr (8, \<lparr>deviates = (\<lambda>j. 10), consumed = 1\<rparr>)
   \<and> (0::real) \<le> 8 \<and> (8::real) \<le> 9
   \<and> (8::real) = np_clip ((2 + 4) / 2 + 1 / 2 * 10) 0 9"
proof -
  have run: "sample_normal_dist 2 4 (1 / 2) \<lparr>deviates = (\<lambda>j. 10), consumed = 0\<rparr> =
     Inr (8, \<lparr>deviates = (\<lambda>j. 10), consumed = 1\<rparr>)"
    by (simp add: sample_normal_dist_def random_normal_def np_clip_def advance_def)
  from sample_clipped_to_global_domain [OF run] run show ?thesis by simp
qed

text \<open>
  Claim C4, as amended. The function does not compare its bounds. With
  \<open>min_val > max_val\<close> (and a standard deviation that is not negative) it raises nothing:
  it returns the draw centred at \<open>(min_val + max_val) / 2\<close> clipped into [0, 9], the same
  value as with the two bounds exchanged.
\<close>

theorem sample_reversed_bounds:
  assumes "max_val < min_val" and "0 \<le> std_dev"
  shows "sample_normal_dist min_val max_val std_dev g =
           Inr (np_clip ((min_val + max_val) / 2 + std_dev * deviates g (consumed g)) 0 9,
                advance 1 g)
         \<and> sample_normal_dist min_val max_val std_dev g =
             sample_normal_dist max_val min_val std_dev g"
  using assms(2) by (simp add: sample_returns add.commute)

theorem sample_reversed_bounds_witness:
  "(3::real) < 5 \<and> (0::real) \<le> 1 / 2
   \<and> sample_normal_dist 5 3 (1 / 2) ex_rng =
       Inr (np_clip ((5 + 3) / 2 + 1 / 2 * deviates ex_rng (consumed ex_rng)) 0 9, advance 1 ex_rng)
   \<and> sample_normal_dist 5 3 (1 / 2) ex_rng = sample_normal_dist 3 5 (1 / 2) ex_rng"
proof -
  have a: "(3::real) < 5" by simp
  have b: "(0::real) \<le> 1 / 2" by simp
  from sample_reversed_bounds [OF a b, of ex_rng] a b show ?thesis by blast
qed

text \<open>
  Claim C4, as stated, fails: with \<open>min_val = 5\<close>, \<open>max_val = 3\<close> and the deviate 0 the
  call returns 4.
\<close>

theorem sample_reversed_bounds_counterexample:
  "(3::real) < 5 \<and> sample_normal_dist 5 3 (1 / 2) ex_rng = Inr (4, advance 1 ex_rng)"
  by (simp add: sample_normal_dist_def random_normal_def np_clip_def advance_def ex_rng_def)

section \<open>Properties of monte_carlo_simulation\<close>

text \<open>
  Claim C7. For the empty bundle the simulation raises nothing and every one of its
  trials scores exactly 0; no deviate is drawn.
\<close>

theorem empty_bundle_scores_zero:
  "monte_carlo_simulation session [] method_weights n_simulations g =
     Inr (replicate (nat n_simulations) (Fin 0), g)"
  by (simp add: monte_carlo_simulation_def simulation_loop_empty)

text \<open>
  Claim C8. A run with a positive trial count \<open>n_simulations\<close> that completes returns
  exactly \<open>n_simulations\<close> scores.
\<close>

theorem score_distribution_length:
  assumes "0 < n_simulations"
    and "monte_carlo_simulation session selected_methods method_weights n_simulations g =
           Inr (irl_scores, g')"
  shows "int (length irl_scores) = n_simulations"
proof -
  from assms(2) obtain wv where
    "simulation_loop session selected_methods method_weights (nat n_simulations) ([], None, g) =
       Inr (irl_scores, wv, g')"
    by (auto simp: monte_carlo_simulation_def split: sum.splits)
  from simulation_loop_length [OF this] assms(1) show ?thesis by simp
qed

theorem score_distribution_length_witness:
  "(0::int) < 3
   \<and> monte_carlo_simulation ex_session [ex_method 1, ex_method 2] ex_weights 3 ex_rng =
       Inr ([Fin (21 / 8), Fin (21 / 8), Fin (21 / 8)], advance 24 ex_rng)
   \<and> int (length [Fin (21 / 8), Fin (21 / 8), Fin (21 / 8)]) = 3"
proof -
  have run: "monte_carlo_simulation ex_session [ex_method 1, ex_method 2] ex_weights 3 ex_rng =
       Inr ([Fin (21 / 8), Fin (21 / 8), Fin (21 / 8)], advance 24 ex_rng)"
    by (simp add: monte_carlo_simulation_def numeral_3_eq_3 trial_def method_body_def
        sample_normal_dist_def random_normal_def np_clip_def advance_def ex_session_def
        ex_method_def ex_weights_def ex_rng_def ex_service_def sum_values_def np_divide_def)
  have pos: "(0::int) < 3" by simp
  from score_distribution_length [OF pos run] run show ?thesis by simp
qed

text \<open>
  Claim C10. Take a non-empty selection in which no method has a service row, and a
  positive trial count. Every method is skipped, \<^verbatim>\<open>weights\<close> is never bound, and the
  run ends at the normalisation of its first trial with \<^verbatim>\<open>UnboundLocalError\<close>: it
  returns no array of zeros. The branch that appends 0 is the one of the empty selection.
\<close>

theorem no_service_unbound_weights:
  assumes "selected_methods \<noteq> []"
    and "\<forall>m\<in>set selected_methods. session (method_id m) = None"
    and "0 < n_simulations"
  shows "monte_carlo_simulation session selected_methods method_weights n_simulations g =
           Inl UnboundLocalError"
proof -
  from assms(3) obtain k where k: "nat n_simulations = Suc k"
    by (cases "nat n_simulations") auto
  have "simulation_loop session selected_methods method_weights (Suc k) ([], None, g) =
          Inl UnboundLocalError"
    by (rule simulation_loop_unbound
          [OF has_weights_no_service [OF assms(2)] assms(1) bundle_of_no_service [OF assms(2)]])
  then show ?thesis
    by (simp add: monte_carlo_simulation_def k del: simulation_loop.simps)
qed

theorem no_service_unbound_weights_witness:
  "[ex_method 3, ex_method 4] \<noteq> []
   \<and> ex_session (method_id (ex_method 3)) = None
   \<and> ex_session (method_id (ex_method 4)) = None
   \<and> (0::int) < 1000
   \<and> monte_carlo_simulation ex_session [ex_method 3, ex_method 4] ex_weights 1000 ex_rng =
        Inl UnboundLocalError"
proof -
  have a: "[ex_method 3, ex_method 4] \<noteq> []" by simp
  have b3: "ex_session (method_id (ex_method 3)) = None"
    by (simp add: ex_session_def ex_method_def)
  have b4: "ex_session (method_id (ex_method 4)) = None"
    by (simp add: ex_session_def ex_method_def)
  from b3 b4 have b: "\<forall>m\<in>set [ex_method 3, ex_method 4]. ex_session (method_id m) = None"
    by simp
  have c: "(0::int) < 1000" by simp
  from no_service_unbound_weights [OF a b c] a b3 b4 c show ?thesis by blast
qed

text \<open>
  Claim C1. For a non-empty selection, every score of a run that returns is the sum of the
  weighted totals of all the bundle's methods, divided (as numpy divides) by the sum of
  the four weights of the method processed last, times the number of selected methods.
  The weight sums of the other methods do not enter the normalisation factor. Where the
  factor is not zero the score is the ordinary quotient. The bundle is not empty: a run
  that processes no method does not return.
\<close>

theorem normalization_uses_last_weights:
  assumes "selected_methods \<noteq> []"
    and "monte_carlo_simulation session selected_methods method_weights n_simulations g =
           Inr (irl_scores, g')"
    and "i < length irl_scores"
  shows "bundle_of session method_weights selected_methods \<noteq> []
    \<and> irl_scores ! i =
         np_divide
           (sum_list (per_method_totals (bundle_of session method_weights selected_methods)
              (advance (i * (4 * length (bundle_of session method_weights selected_methods))) g)))
           (sum_values (snd (last (bundle_of session method_weights selected_methods)))
              * real (length selected_methods))
    \<and> (sum_values (snd (last (bundle_of session method_weights selected_methods))) \<noteq> 0 \<longrightarrow>
         irl_scores ! i =
           Fin (sum_list (per_method_totals (bundle_of session method_weights selected_methods)
                  (advance (i * (4 * length (bundle_of session method_weights selected_methods))) g))
                / (sum_values (snd (last (bundle_of session method_weights selected_methods)))
                   * real (length selected_methods))))"
proof -
  let ?b = "bundle_of session method_weights selected_methods"
  from monte_carlo_simulation_length [OF assms(2)] assms(3)
  have n: "0 < n_simulations" and i: "i < nat n_simulations"
    by auto
  have hw: "has_weights session method_weights selected_methods"
    using monte_carlo_simulation_KeyError [OF _ n, of session method_weights selected_methods g]
      assms(2)
    by auto
  have b: "?b \<noteq> []"
    using monte_carlo_simulation_unbound [OF hw assms(1) _ n, of g] assms(2) by auto
  from monte_carlo_simulation_closed [OF hw b, of n_simulations g] assms(2) i
  have score: "irl_scores ! i =
           np_divide (sum_list (per_method_totals ?b (advance (i * (4 * length ?b)) g)))
             (sum_values (snd (last ?b)) * real (length selected_methods))"
    by (auto simp: spec_trial_score_def)
  from assms(1) have "real (length selected_methods) \<noteq> 0" by simp
  with score b show ?thesis by (simp add: np_divide_def)
qed

text \<open>
  Two methods with weight sums 4 and 8 and weighted totals 16 and 24: the score is
  40 / (8 * 2), not 40 / ((4 + 8) * 2).
\<close>

theorem normalization_uses_last_weights_witness:
  "[ex_method 1, ex_method 2] \<noteq> []
   \<and> monte_carlo_simulation ex_session [ex_method 1, ex_method 2] ex_weights 1 ex_rng_hi_lo =
       Inr ([Fin (5 / 2)], advance 8 ex_rng_hi_lo)
   \<and> (0::nat) < length [Fin (5 / 2)]
   \<and> [Fin (5 / 2)] ! 0 =
       np_divide
         (sum_list (per_method_totals (bundle_of ex_session ex_weights [ex_method 1, ex_method 2])
            (advance (0 * (4 * length (bundle_of ex_session ex_weights [ex_method 1, ex_method 2])))
               ex_rng_hi_lo)))
         (sum_values (snd (last (bundle_of ex_session ex_weights [ex_method 1, ex_method 2])))
            * real (length [ex_method 1, ex_method 2]))
   \<and> sum_values (snd (last (bundle_of ex_session ex_weights [ex_method 1, ex_method 2]))) = 8"
proof -
  have a: "[ex_method 1, ex_method 2] \<noteq> []" by simp
  have run: "monte_carlo_simulation ex_session [ex_method 1, ex_method 2] ex_weights 1 ex_rng_hi_lo =
       Inr ([Fin (5 / 2)], advance 8 ex_rng_hi_lo)"
    by (simp add: monte_carlo_simulation_def trial_def method_body_def sample_normal_dist_def
        random_normal_def np_clip_def advance_def ex_session_def ex_method_def ex_weights_def
        ex_rng_hi_lo_def ex_service_def sum_values_def np_divide_def)
  have i: "(0::nat) < length [Fin (5 / 2)]" by simp
  have s: "sum_values (snd (last (bundle_of ex_session ex_weights [ex_method 1, ex_method 2]))) = 8"
    unfolding ex_bundle_12 by (simp add: sum_values_def)
  from normalization_uses_last_weights [OF a run i] a run i s show ?thesis by blast
qed

text \<open>
  Claim C3, as amended. A selected method without a service row is skipped, and the run
  does not abort on it. Take a selection that contains such a method, in which at least
  one method has a service row and \<^verbatim>\<open>method_weights\<close> has an entry for every method
  that has one. The run returns one score for each trial. Each score is the sum of the
  weighted totals of the methods that have a service row, divided by the weight sum of
  the last of them times \<open>len(selected_methods)\<close>: the skipped method draws no sample
  and adds nothing to the total, and it still counts in the method count of the
  normalisation factor, which is larger than the number of methods processed. The inner
  loop does for the whole selection what it does for the methods that have a service
  row.
\<close>

theorem missing_service_is_skipped:
  assumes "\<exists>m\<in>set selected_methods. session (method_id m) = None"
    and "has_weights session method_weights selected_methods"
    and "bundle_of session method_weights selected_methods \<noteq> []"
  shows "monte_carlo_simulation session selected_methods method_weights n_simulations g =
           Inr (map (\<lambda>i.
                  np_divide
                    (sum_list (per_method_totals
                       (bundle_of session method_weights selected_methods)
                       (advance
                          (i * (4 * length (bundle_of session method_weights selected_methods)))
                          g)))
                    (sum_values (snd (last (bundle_of session method_weights selected_methods)))
                       * real (length selected_methods)))
                  [0..<nat n_simulations],
                advance (nat n_simulations
                         * (4 * length (bundle_of session method_weights selected_methods))) g)
         \<and> (\<exists>irl_scores g'.
               monte_carlo_simulation session selected_methods method_weights n_simulations g =
                 Inr (irl_scores, g')
               \<and> length irl_scores = nat n_simulations)
         \<and> bundle_of session method_weights selected_methods =
             bundle_of session method_weights
               (filter (\<lambda>m. session (method_id m) \<noteq> None) selected_methods)
         \<and> length (filter (\<lambda>m. session (method_id m) \<noteq> None) selected_methods)
             < length selected_methods
         \<and> method_loop session method_weights selected_methods st =
             method_loop session method_weights
               (filter (\<lambda>m. session (method_id m) \<noteq> None) selected_methods) st"
proof -
  have run: "monte_carlo_simulation session selected_methods method_weights n_simulations g =
           Inr (map (\<lambda>i.
                  np_divide
                    (sum_list (per_method_totals
                       (bundle_of session method_weights selected_methods)
                       (advance
                          (i * (4 * length (bundle_of session method_weights selected_methods)))
                          g)))
                    (sum_values (snd (last (bundle_of session method_weights selected_methods)))
                       * real (length selected_methods)))
                  [0..<nat n_simulations],
                advance (nat n_simulations
                         * (4 * length (bundle_of session method_weights selected_methods))) g)"
    using monte_carlo_simulation_closed [OF assms(2,3), of n_simulations g]
    by (simp add: spec_trial_score_def)
  then have returns: "\<exists>irl_scores g'.
               monte_carlo_simulation session selected_methods method_weights n_simulations g =
                 Inr (irl_scores, g')
               \<and> length irl_scores = nat n_simulations"
    by simp
  note same_bundle = bundle_of_filter [of session method_weights selected_methods, symmetric]
  note count = length_filter_skipped [OF assms(1)]
  note loop = method_loop_skips [of session method_weights selected_methods st]
  from run returns same_bundle count loop show ?thesis by blast
qed

text \<open>
  Method 1 has a service row and method 3 has none: each of the two trials scores
  14 / (4 * 2), the total of method 1 over its weight sum times the two selected methods.
\<close>

theorem missing_service_is_skipped_witness:
  "(\<exists>m\<in>set [ex_method 1, ex_method 3]. ex_session (method_id m) = None)
   \<and> has_weights ex_session ex_weights [ex_method 1, ex_method 3]
   \<and> bundle_of ex_session ex_weights [ex_method 1, ex_method 3] \<noteq> []
   \<and> monte_carlo_simulation ex_session [ex_method 1, ex_method 3] ex_weights 2 ex_rng =
       Inr ([Fin (14 / (4 * 2)), Fin (14 / (4 * 2))], advance 8 ex_rng)
   \<and> (\<exists>irl_scores g'.
         monte_carlo_simulation ex_session [ex_method 1, ex_method 3] ex_weights 2 ex_rng =
           Inr (irl_scores, g')
         \<and> length irl_scores = nat 2)
   \<and> bundle_of ex_session ex_weights [ex_method 1, ex_method 3] =
       bundle_of ex_session ex_weights
         (filter (\<lambda>m. ex_session (method_id m) \<noteq> None) [ex_method 1, ex_method 3])
   \<and> length (filter (\<lambda>m. ex_session (method_id m) \<noteq> None) [ex_method 1, ex_method 3])
       < length [ex_method 1, ex_method 3]
   \<and> method_loop ex_session ex_weights [ex_method 1, ex_method 3] (PyInt 0, None, ex_rng) =
       method_loop ex_session ex_weights
         (filter (\<lambda>m. ex_session (method_id m) \<noteq> None) [ex_method 1, ex_method 3])
         (PyInt 0, None, ex_rng)"
proof -
  have a: "\<exists>m\<in>set [ex_method 1, ex_method 3]. ex_session (method_id m) = None"
    by (simp add: ex_session_def ex_method_def)
  have b: "has_weights ex_session ex_weights [ex_method 1, ex_method 3]"
    by (simp add: has_weights_def ex_session_def ex_weights_def ex_method_def)
  have c: "bundle_of ex_session ex_weights [ex_method 1, ex_method 3] \<noteq> []"
    unfolding ex_bundle_13 by simp
  note inst = missing_service_is_skipped [OF a b c, of 2 ex_rng "(PyInt 0, None, ex_rng)"]
  have two: "[0..<nat 2] = [0, 1]" by (simp add: upt_rec)
  from inst
  have run: "monte_carlo_simulation ex_session [ex_method 1, ex_method 3] ex_weights 2 ex_rng =
       Inr ([Fin (14 / (4 * 2)), Fin (14 / (4 * 2))], advance 8 ex_rng)"
    unfolding ex_bundle_13 two
    by (simp add: weighted_total_def clipped_draw_def np_clip_def np_divide_def sum_values_def
        advance_def ex_rng_def ex_service_def)
  from inst run a b c show ?thesis by blast
qed

text \<open>
  Claim C3, as stated, fails: method 3 has no service row, and the run over methods 1 and
  3 returns the score of method 1 alone, 14 / (4 * 2).
\<close>

theorem missing_service_is_skipped_counterexample:
  "ex_session (method_id (ex_method 3)) = None
   \<and> monte_carlo_simulation ex_session [ex_method 1, ex_method 3] ex_weights 1 ex_rng =
       Inr ([Fin (7 / 4)], advance 4 ex_rng)"
  by (simp add: monte_carlo_simulation_def trial_def method_body_def sample_normal_dist_def
      random_normal_def np_clip_def advance_def ex_session_def ex_method_def ex_weights_def
      ex_rng_def ex_service_def sum_values_def np_divide_def)

text \<open>
  Claim C2 fails on the code. The bundle of methods 1 and 2 is run in its two orders, the
  draws of each method and parameter held fixed (deviate 1 for every parameter of
  method 1, deviate -1 for every parameter of method 2). The weighted totals are 16 for
  method 1 and 24 for method 2 in both orders; the score is 40 / (8 * 2) when method 2
  is last and 40 / (4 * 2) when method 1 is last.
\<close>

theorem order_of_bundle_changes_score:
  "monte_carlo_simulation ex_session [ex_method 1, ex_method 2] ex_weights 1 ex_rng_hi_lo =
     Inr ([Fin (5 / 2)], advance 8 ex_rng_hi_lo)
   \<and> monte_carlo_simulation ex_session [ex_method 2, ex_method 1] ex_weights 1 ex_rng_lo_hi =
       Inr ([Fin 5], advance 8 ex_rng_lo_hi)
   \<and> per_method_totals (bundle_of ex_session ex_weights [ex_method 1, ex_method 2]) ex_rng_hi_lo
       = [16, 24]
   \<and> per_method_totals (bundle_of ex_session ex_weights [ex_method 2, ex_method 1]) ex_rng_lo_hi
       = [24, 16]"
  by (simp add: monte_carlo_simulation_def trial_def method_body_def sample_normal_dist_def
      random_normal_def np_clip_def advance_def ex_session_def ex_method_def ex_weights_def
      ex_rng_hi_lo_def ex_rng_lo_hi_def ex_service_def sum_values_def np_divide_def
      weighted_total_def clipped_draw_def)

text \<open>
  Claim C9. The scores, or the exception, of a run depend on the generator only through
  the deviates the run draws: four for each method of the bundle in each trial. Two runs
  with the same database, selection, weights and trial count, from generators that
  yield the same deviates (as two generators seeded alike do), have the same outcome.
\<close>

theorem same_seed_same_scores:
  assumes "same_draws
             (nat n_simulations * (4 * length (bundle_of session method_weights selected_methods)))
             g1 g2"
  shows "outcome (monte_carlo_simulation session selected_methods method_weights n_simulations g1)
         = outcome (monte_carlo_simulation session selected_methods method_weights n_simulations g2)"
proof (cases "0 < n_simulations")
  case False
  then show ?thesis by (simp add: monte_carlo_simulation_no_trial outcome_def)
next
  case n: True
  show ?thesis
  proof (cases "has_weights session method_weights selected_methods")
    case False
    then show ?thesis by (simp add: monte_carlo_simulation_KeyError [OF _ n])
  next
    case hw: True
    show ?thesis
    proof (cases "bundle_of session method_weights selected_methods = []")
      case b: True
      show ?thesis
      proof (cases "selected_methods = []")
        case True
        then show ?thesis
          by (simp add: monte_carlo_simulation_def simulation_loop_empty outcome_def)
      next
        case False
        then show ?thesis by (simp add: monte_carlo_simulation_unbound [OF hw _ b n])
      qed
    next
      case b: False
      from spec_trial_score_same [OF assms]
      show ?thesis
        by (simp add: monte_carlo_simulation_closed [OF hw b] outcome_def)
    qed
  qed
qed

text \<open>
  Two generators that differ after their first eight deviates, for a run that draws
  eight.
\<close>

theorem same_seed_same_scores_witness:
  "same_draws
     (nat 1 * (4 * length (bundle_of ex_session ex_weights [ex_method 1, ex_method 2])))
     ex_rng_hi_lo \<lparr>deviates = (\<lambda>j. if j < 4 then 1 else if j < 8 then - 1 else 7), consumed = 0\<rparr>
   \<and> outcome (monte_carlo_simulation ex_session [ex_method 1, ex_method 2] ex_weights 1
        ex_rng_hi_lo)
     = outcome (monte_carlo_simulation ex_session [ex_method 1, ex_method 2] ex_weights 1
          \<lparr>deviates = (\<lambda>j. if j < 4 then 1 else if j < 8 then - 1 else 7), consumed = 0\<rparr>)
   \<and> outcome (monte_carlo_simulation ex_session [ex_method 1, ex_method 2] ex_weights 1
        ex_rng_hi_lo) = Inr [Fin (5 / 2)]"
proof -
  have a: "same_draws
     (nat 1 * (4 * length (bundle_of ex_session ex_weights [ex_method 1, ex_method 2])))
     ex_rng_hi_lo \<lparr>deviates = (\<lambda>j. if j < 4 then 1 else if j < 8 then - 1 else 7), consumed = 0\<rparr>"
    unfolding ex_bundle_12 by (simp add: same_draws_def ex_rng_hi_lo_def)
  have run: "outcome (monte_carlo_simulation ex_session [ex_method 1, ex_method 2] ex_weights 1
        ex_rng_hi_lo) = Inr [Fin (5 / 2)]"
    by (simp add: monte_carlo_simulation_def trial_def method_body_def sample_normal_dist_def
        random_normal_def np_clip_def advance_def ex_session_def ex_method_def ex_weights_def
        ex_rng_hi_lo_def ex_service_def sum_values_def np_divide_def outcome_def)
  from same_seed_same_scores [OF a] a run show ?thesis by blast
qed

text \<open>
  Claim C6, as amended. Take a bundle that is not empty, with an entry of
  \<^verbatim>\<open>method_weights\<close> for each of its methods, in which the four weights of the method
  processed last are all zero. The normalisation factor is zero and the run raises
  nothing: the numerator is a \<^verbatim>\<open>numpy.float64\<close>, and the score of each trial is
  positive infinity when the sum of the weighted totals is positive, negative infinity
  when it is negative, and nan when it is zero.
\<close>

theorem zero_weights_give_inf_or_nan:
  assumes "has_weights session method_weights selected_methods"
    and "bundle_of session method_weights selected_methods \<noteq> []"
    and "cost_w (snd (last (bundle_of session method_weights selected_methods))) = 0"
    and "maturity_w (snd (last (bundle_of session method_weights selected_methods))) = 0"
    and "integration_w (snd (last (bundle_of session method_weights selected_methods))) = 0"
    and "interoperability_w (snd (last (bundle_of session method_weights selected_methods))) = 0"
  shows "monte_carlo_simulation session selected_methods method_weights n_simulations g =
     Inr (map (\<lambda>i.
            if 0 < sum_list (per_method_totals (bundle_of session method_weights selected_methods)
                 (advance (i * (4 * length (bundle_of session method_weights selected_methods))) g))
            then PInf
            else if sum_list (per_method_totals (bundle_of session method_weights selected_methods)
                 (advance (i * (4 * length (bundle_of session method_weights selected_methods))) g))
                 < 0
            then NInf else NaN) [0..<nat n_simulations],
          advance (nat n_simulations
                   * (4 * length (bundle_of session method_weights selected_methods))) g)"
proof -
  from assms(3-6)
  have "sum_values (snd (last (bundle_of session method_weights selected_methods))) = 0"
    by (simp add: sum_values_def)
  then show ?thesis
    by (simp add: monte_carlo_simulation_closed [OF assms(1,2)] spec_trial_score_def
        np_divide_zero)
qed

text \<open>
  Method 2 with weights 2.0 and then method 1 with weights 0.0: the total is 28, the
  factor is 0 and the score is positive infinity.
\<close>

theorem zero_weights_give_inf_or_nan_witness:
  "has_weights ex_session ex_zero_weights [ex_method 2, ex_method 1]
   \<and> bundle_of ex_session ex_zero_weights [ex_method 2, ex_method 1] \<noteq> []
   \<and> cost_w (snd (last (bundle_of ex_session ex_zero_weights [ex_method 2, ex_method 1]))) = 0
   \<and> maturity_w (snd (last (bundle_of ex_session ex_zero_weights [ex_method 2, ex_method 1]))) = 0
   \<and> integration_w (snd (last (bundle_of ex_session ex_zero_weights [ex_method 2, ex_method 1])))
       = 0
   \<and> interoperability_w
        (snd (last (bundle_of ex_session ex_zero_weights [ex_method 2, ex_method 1]))) = 0
   \<and> monte_carlo_simulation ex_session [ex_method 2, ex_method 1] ex_zero_weights 1 ex_rng =
       Inr ([PInf], advance 8 ex_rng)"
proof -
  let ?b = "bundle_of ex_session ex_zero_weights [ex_method 2, ex_method 1]"
  have a: "has_weights ex_session ex_zero_weights [ex_method 2, ex_method 1]"
    by (simp add: has_weights_def ex_session_def ex_zero_weights_def ex_method_def)
  have b: "?b \<noteq> []" unfolding ex_bundle_21_zero by simp
  have c: "cost_w (snd (last ?b)) = 0" unfolding ex_bundle_21_zero by simp
  have d: "maturity_w (snd (last ?b)) = 0" unfolding ex_bundle_21_zero by simp
  have e: "integration_w (snd (last ?b)) = 0" unfolding ex_bundle_21_zero by simp
  have f: "interoperability_w (snd (last ?b)) = 0" unfolding ex_bundle_21_zero by simp
  have "monte_carlo_simulation ex_session [ex_method 2, ex_method 1] ex_zero_weights 1 ex_rng =
       Inr ([PInf], advance 8 ex_rng)"
    using zero_weights_give_inf_or_nan [OF a b c d e f, of 1 ex_rng]
    unfolding ex_bundle_21_zero
    by (simp add: weighted_total_def clipped_draw_def np_clip_def advance_def ex_rng_def
        ex_service_def)
  with a b c d e f show ?thesis by blast
qed

text \<open>
  Claim C6, as stated, fails: with the weights of the last method all zero the run
  returns positive infinity when an earlier method has a positive total, and nan when
  the total is zero.
\<close>

theorem zero_weights_give_inf_or_nan_counterexample:
  "ex_zero_weights (method_id (ex_method 1)) =
     Some \<lparr>cost_w = 0, maturity_w = 0, integration_w = 0, interoperability_w = 0\<rparr>
   \<and> monte_carlo_simulation ex_session [ex_method 2, ex_method 1] ex_zero_weights 1 ex_rng =
       Inr ([PInf], advance 8 ex_rng)
   \<and> monte_carlo_simulation ex_session [ex_method 1] ex_zero_weights 1 ex_rng =
       Inr ([NaN], advance 4 ex_rng)"
  by (simp add: monte_carlo_simulation_def trial_def method_body_def sample_normal_dist_def
      random_normal_def np_clip_def advance_def ex_session_def ex_method_def ex_zero_weights_def
      ex_rng_def ex_service_def sum_values_def np_divide_def)

end
